theory Spec2Isabelle
  imports Main "HOL-Library.Word"
begin

section \<open>Python values\<close>

text \<open>
  Text is \<^typ>\<open>string\<close>: one \<^typ>\<open>char\<close> per code point, so the model ranges over the
  texts whose code points are below 256. Bytes are 8-bit words. An exception is a value
  that carries the text \<open>str(e)\<close> gives; for the exceptions of library functions the text
  is a short tag, the library's wording is not reproduced.
\<close>

type_synonym byte = "8 word"

datatype exn =
    JSONDecodeError string
  | KeyError string
  | TypeError string
  | AttributeError string
  | ValueError string
  | BinasciiError string
  | APIError string
  | Exception string
  | OutsideModel string

fun is_JSONDecodeError :: "exn \<Rightarrow> bool" where
  "is_JSONDecodeError (JSONDecodeError m) = True"
| "is_JSONDecodeError e = False"

text \<open>\<open>str(e)\<close>: the message; a \<open>KeyError\<close> prints its key between quotes.\<close>

fun str_exn :: "exn \<Rightarrow> string" where
  "str_exn (JSONDecodeError m) = m"
| "str_exn (KeyError k) = [CHR 0x27] @ k @ [CHR 0x27]"
| "str_exn (TypeError m) = m"
| "str_exn (AttributeError m) = m"
| "str_exn (ValueError m) = m"
| "str_exn (BinasciiError m) = m"
| "str_exn (APIError m) = m"
| "str_exn (Exception m) = m"
| "str_exn (OutsideModel m) = m"

subsection \<open>Methods of \<open>str\<close>\<close>

text \<open>\<open>str.isspace\<close> on the code points below 256.\<close>

definition isspace :: "char \<Rightarrow> bool" where
  "isspace c = (let n = (of_char c :: nat) in
     (9 \<le> n \<and> n \<le> 13) \<or> (28 \<le> n \<and> n \<le> 32) \<or> n = 133 \<or> n = 160)"

text \<open>\<open>str.isalnum\<close> on the code points below 256: the ASCII letters and digits, and
  the letters and numeric characters of the upper half.\<close>

definition isalnum :: "char \<Rightarrow> bool" where
  "isalnum c = (let n = (of_char c :: nat) in
     (48 \<le> n \<and> n \<le> 57) \<or> (65 \<le> n \<and> n \<le> 90) \<or> (97 \<le> n \<and> n \<le> 122) \<or>
     n = 170 \<or> n = 178 \<or> n = 179 \<or> n = 181 \<or> n = 185 \<or> n = 186 \<or>
     (188 \<le> n \<and> n \<le> 190) \<or> (192 \<le> n \<and> n \<le> 214) \<or> (216 \<le> n \<and> n \<le> 246) \<or>
     248 \<le> n)"

definition strip :: "string \<Rightarrow> string" where
  "strip s = rev (dropWhile isspace (rev (dropWhile isspace s)))"

definition startswith :: "string \<Rightarrow> string \<Rightarrow> bool" where
  "startswith s p = (take (length p) s = p)"

definition endswith :: "string \<Rightarrow> string \<Rightarrow> bool" where
  "endswith s p = (length p \<le> length s \<and> drop (length s - length p) s = p)"

text \<open>\<open>s.split(sep)\<close> for a one-character separator: never an empty list.\<close>

fun str_split :: "char \<Rightarrow> string \<Rightarrow> string list" where
  "str_split sep [] = [[]]"
| "str_split sep (c # cs) =
     (if c = sep then [] # str_split sep cs
      else (case str_split sep cs of
              [] \<Rightarrow> [[c]]
            | l # ls \<Rightarrow> (c # l) # ls))"

text \<open>\<open>sep.join(parts)\<close>.\<close>

fun str_join :: "string \<Rightarrow> string list \<Rightarrow> string" where
  "str_join sep [] = []"
| "str_join sep [l] = l"
| "str_join sep (l # ls) = l @ sep @ str_join sep ls"

text \<open>\<open>s.find(c)\<close>: the first index of the character, \<open>None\<close> for Python's \<open>-1\<close>.\<close>

fun str_find :: "char \<Rightarrow> string \<Rightarrow> nat option" where
  "str_find c [] = None"
| "str_find c (x # xs) = (if x = c then Some 0 else map_option Suc (str_find c xs))"

section \<open>The JSON reader\<close>

text \<open>
  \<open>json.loads\<close> belongs to the standard library. It is modelled as a reader of the JSON
  grammar the library accepts (the literals \<open>NaN\<close>, \<open>Infinity\<close> and \<open>-Infinity\<close> included).
  A number without fraction and exponent is an integer; any other number is kept as its
  exact decimal value \<open>mantissa * 10 ^ exponent\<close> (Python holds the nearest double).
  An object is the list of its members in first-insertion order, a repeated key keeping
  its last value, as a Python \<open>dict\<close> does.
\<close>

datatype json =
    JNull
  | JBool bool
  | JInt int
  | JFloat bool nat int
  | JNaN
  | JInfinity bool
  | JStr string
  | JArr "json list"
  | JObj "(string \<times> json) list"

fun dict_set :: "(string \<times> json) list \<Rightarrow> string \<Rightarrow> json \<Rightarrow> (string \<times> json) list" where
  "dict_set [] k v = [(k, v)]"
| "dict_set ((k', v') # kvs) k v =
     (if k' = k then (k, v) # kvs else (k', v') # dict_set kvs k v)"

text \<open>\<open>d[key]\<close>: only a dict can be indexed by a string.\<close>

fun getitem :: "json \<Rightarrow> string \<Rightarrow> exn + json" where
  "getitem (JObj kvs) k = (case map_of kvs k of None \<Rightarrow> Inl (KeyError k) | Some v \<Rightarrow> Inr v)"
| "getitem v k = Inl (TypeError ''not subscriptable by str'')"

text \<open>\<open>d.get(key, default)\<close>: only a dict has the method.\<close>

fun dict_get :: "json \<Rightarrow> string \<Rightarrow> json \<Rightarrow> exn + json" where
  "dict_get (JObj kvs) k d = (case map_of kvs k of None \<Rightarrow> Inr d | Some v \<Rightarrow> Inr v)"
| "dict_get v k d = Inl (AttributeError ''object has no attribute get'')"

text \<open>
  Truth value of a parsed value. A float is false when it is zero: its literal has a zero
  mantissa, or is so small that the nearest double is zero (at most \<open>2 ^ -1075\<close>).
\<close>

fun truthy :: "json \<Rightarrow> bool" where
  "truthy JNull = False"
| "truthy (JBool b) = b"
| "truthy (JInt i) = (i \<noteq> 0)"
| "truthy (JFloat neg m x) = (\<not> (m = 0 \<or> (x < 0 \<and> m * 2 ^ 1075 \<le> 10 ^ nat (- x))))"
| "truthy JNaN = True"
| "truthy (JInfinity neg) = True"
| "truthy (JStr s) = (s \<noteq> [])"
| "truthy (JArr xs) = (xs \<noteq> [])"
| "truthy (JObj kvs) = (kvs \<noteq> [])"

subsection \<open>Tokens\<close>

datatype token = TLBrace | TRBrace | TLBrack | TRBrack | TColon | TComma | TScalar json

definition isdigit :: "char \<Rightarrow> bool" where
  "isdigit c = (48 \<le> (of_char c :: nat) \<and> (of_char c :: nat) \<le> 57)"

definition digit_value :: "char \<Rightarrow> nat" where
  "digit_value c = of_char c - 48"

definition decimal :: "string \<Rightarrow> nat" where
  "decimal ds = foldl (\<lambda>n d. 10 * n + digit_value d) 0 ds"

definition hex_value :: "char \<Rightarrow> nat option" where
  "hex_value c = (let n = (of_char c :: nat) in
     if 48 \<le> n \<and> n \<le> 57 then Some (n - 48)
     else if 65 \<le> n \<and> n \<le> 70 then Some (n - 55)
     else if 97 \<le> n \<and> n \<le> 102 then Some (n - 87)
     else None)"

text \<open>The character a one-letter escape stands for.\<close>

definition unescape :: "char \<Rightarrow> char option" where
  "unescape e =
     (if e = CHR ''\"'' then Some (CHR ''\"'')
      else if e = CHR 0x5C then Some (CHR 0x5C)
      else if e = CHR ''/'' then Some (CHR ''/'')
      else if e = CHR ''b'' then Some (CHR 0x08)
      else if e = CHR ''f'' then Some (CHR 0x0C)
      else if e = CHR ''n'' then Some (CHR 0x0A)
      else if e = CHR ''r'' then Some (CHR 0x0D)
      else if e = CHR ''t'' then Some (CHR 0x09)
      else None)"

text \<open>
  The body of a string, after its opening quote: the decoded text and the input after the
  closing quote. A control character is refused (strict mode). An escape \<open>\uXXXX\<close> of a
  code point from 256 on has no \<^typ>\<open>char\<close>: the model stops there with \<open>OutsideModel\<close>.
\<close>

fun scan_string :: "string \<Rightarrow> string \<Rightarrow> exn + (string \<times> string)" where
  "scan_string acc [] = Inl (JSONDecodeError ''Unterminated string'')"
| "scan_string acc (c # cs) =
     (if c = CHR ''\"'' then Inr (rev acc, cs)
      else if c = CHR 0x5C then
        (case cs of
           [] \<Rightarrow> Inl (JSONDecodeError ''Unterminated string'')
         | e # cs' \<Rightarrow>
             (if e = CHR ''u'' then
                (case cs' of
                   h1 # h2 # h3 # h4 # rest \<Rightarrow>
                     (case (hex_value h1, hex_value h2, hex_value h3, hex_value h4) of
                        (Some a, Some b, Some c, Some d) \<Rightarrow>
                          (let n = ((a * 16 + b) * 16 + c) * 16 + d in
                           if n < 256 then scan_string (char_of n # acc) rest
                           else Inl (OutsideModel ''escape of a code point above 255''))
                      | _ \<Rightarrow> Inl (JSONDecodeError ''Invalid uXXXX escape''))
                 | _ \<Rightarrow> Inl (JSONDecodeError ''Invalid uXXXX escape''))
              else (case unescape e of
                      None \<Rightarrow> Inl (JSONDecodeError ''Invalid escape'')
                    | Some ch \<Rightarrow> scan_string (ch # acc) cs')))
      else if (of_char c :: nat) < 32 then Inl (JSONDecodeError ''Invalid control character'')
      else scan_string (c # acc) cs)"

text \<open>
  A number at the head of the input, by the library's pattern: an optional minus, \<open>0\<close> or
  a digit string without leading zero, an optional fraction, an optional exponent. The
  fraction and the exponent are taken only when complete.
\<close>

definition number_sign :: "string \<Rightarrow> string" where
  "number_sign cs = (case cs of [] \<Rightarrow> [] | c # r \<Rightarrow> if c = CHR ''-'' then [c] else [])"

definition number_int :: "string \<Rightarrow> string" where
  "number_int cs =
     (case cs of
        [] \<Rightarrow> []
      | c # r \<Rightarrow> if c = CHR ''0'' then [c] else takeWhile isdigit cs)"

definition number_frac :: "string \<Rightarrow> string" where
  "number_frac cs =
     (case cs of
        [] \<Rightarrow> []
      | c # r \<Rightarrow>
          if c = CHR ''.'' \<and> takeWhile isdigit r \<noteq> [] then c # takeWhile isdigit r else [])"

definition number_exp :: "string \<Rightarrow> string" where
  "number_exp cs =
     (case cs of
        [] \<Rightarrow> []
      | c # r \<Rightarrow>
          if c = CHR ''e'' \<or> c = CHR ''E'' then
            (let sg = (case r of [] \<Rightarrow> [] | s # r' \<Rightarrow> if s = CHR ''+'' \<or> s = CHR ''-'' then [s] else []);
                 ds = takeWhile isdigit (drop (length sg) r)
             in if ds = [] then [] else c # sg @ ds)
          else [])"

text \<open>The value of an exponent part \<open>e[+-]digits\<close>, 0 for the empty one.\<close>

definition exp_value :: "string \<Rightarrow> int" where
  "exp_value ex =
     (case ex of
        [] \<Rightarrow> 0
      | e # r \<Rightarrow>
          (case r of
             [] \<Rightarrow> 0
           | s # r' \<Rightarrow>
               if s = CHR ''-'' then - int (decimal r')
               else if s = CHR ''+'' then int (decimal r')
               else int (decimal r)))"

definition scan_number :: "string \<Rightarrow> (json \<times> string) option" where
  "scan_number cs =
     (let sg = number_sign cs;
          ip = number_int (drop (length sg) cs);
          fr = number_frac (drop (length (sg @ ip)) cs);
          ex = number_exp (drop (length (sg @ ip @ fr)) cs)
      in if ip = [] then None
         else Some
           (if fr = [] \<and> ex = []
            then JInt (if sg = [] then int (decimal ip) else - int (decimal ip))
            else JFloat (sg \<noteq> []) (decimal (ip @ tl fr)) (exp_value ex - int (length (tl fr))),
            drop (length (sg @ ip @ fr @ ex)) cs))"

text \<open>What the scanners leave is never longer than what they were given.\<close>

lemma scan_string_length: "scan_string acc cs = Inr (s, rest) \<Longrightarrow> length rest \<le> length cs"
proof (induction acc cs rule: scan_string.induct)
  case (1 acc)
  then show ?case by simp
next
  case (2 acc c cs)
  then show ?case
    by (auto split: if_splits list.splits option.splits simp: Let_def; fastforce)
qed

lemma scan_number_length: "scan_number cs = Some (v, rest) \<Longrightarrow> length rest < length cs"
proof -
  assume a: "scan_number cs = Some (v, rest)"
  define ip where "ip = number_int (drop (length (number_sign cs)) cs)"
  from a have ne: "ip \<noteq> []" and r: "rest = drop (length (number_sign cs @ ip @
      number_frac (drop (length (number_sign cs @ ip)) cs) @
      number_exp (drop (length (number_sign cs @ ip @
         number_frac (drop (length (number_sign cs @ ip)) cs))) cs))) cs"
    by (auto simp: scan_number_def Let_def ip_def split: if_splits)
  from ne have "cs \<noteq> []"
    by (auto simp: ip_def number_int_def number_sign_def)
  with ne r show ?thesis by (cases ip) auto
qed

subsection \<open>From text to tokens\<close>

definition json_whitespace :: "char \<Rightarrow> bool" where
  "json_whitespace c = (c = CHR '' '' \<or> c = CHR 0x09 \<or> c = CHR 0x0A \<or> c = CHR 0x0D)"

definition cons_token :: "token \<Rightarrow> exn + token list \<Rightarrow> exn + token list" where
  "cons_token t r = (case r of Inl e \<Rightarrow> Inl e | Inr ts \<Rightarrow> Inr (t # ts))"

function lex :: "string \<Rightarrow> exn + token list" where
  "lex [] = Inr []"
| "lex (c # cs) =
     (if json_whitespace c then lex cs
      else if c = CHR ''{'' then cons_token TLBrace (lex cs)
      else if c = CHR ''}'' then cons_token TRBrace (lex cs)
      else if c = CHR ''['' then cons_token TLBrack (lex cs)
      else if c = CHR '']'' then cons_token TRBrack (lex cs)
      else if c = CHR '':'' then cons_token TColon (lex cs)
      else if c = CHR '','' then cons_token TComma (lex cs)
      else if c = CHR ''\"'' then
        (case scan_string [] cs of
           Inl e \<Rightarrow> Inl e
         | Inr (s, rest) \<Rightarrow> cons_token (TScalar (JStr s)) (lex rest))
      else if startswith (c # cs) ''null'' then cons_token (TScalar JNull) (lex (drop 3 cs))
      else if startswith (c # cs) ''true'' then cons_token (TScalar (JBool True)) (lex (drop 3 cs))
      else if startswith (c # cs) ''false'' then cons_token (TScalar (JBool False)) (lex (drop 4 cs))
      else if startswith (c # cs) ''NaN'' then cons_token (TScalar JNaN) (lex (drop 2 cs))
      else if startswith (c # cs) ''Infinity'' then
        cons_token (TScalar (JInfinity False)) (lex (drop 7 cs))
      else if startswith (c # cs) ''-Infinity'' then
        cons_token (TScalar (JInfinity True)) (lex (drop 8 cs))
      else
        (case scan_number (c # cs) of
           None \<Rightarrow> Inl (JSONDecodeError ''Expecting value'')
         | Some (v, rest) \<Rightarrow> cons_token (TScalar v) (lex rest)))"
  by pat_completeness auto
termination
proof (relation "measure length")
  fix c cs x2 x y
  assume "scan_string [] cs = Inr x2" and "(x, y) = x2"
  then have "scan_string [] cs = Inr (x, y)" by simp
  then show "(y, c # cs) \<in> measure length"
    using scan_string_length by fastforce
next
  fix c cs x2 x y
  assume "scan_number (c # cs) = Some x2" and "(x, y) = x2"
  then have "scan_number (c # cs) = Some (x, y)" by simp
  then show "(y, c # cs) \<in> measure length"
    using scan_number_length by fastforce
qed auto

subsection \<open>From tokens to a value\<close>

text \<open>
  The reader keeps a stack of the arrays and objects still open: an array with its
  elements so far (last first), an object with its members so far, and for a member
  under way its key.
\<close>

datatype frame =
    FArr "json list"
  | FObj "(string \<times> json) list"
  | FKey "(string \<times> json) list" string

datatype pstate = PValue | PValueOrEnd | PKeyOrEnd | PKey | PColon | PAfter | PDone json

text \<open>A value is complete: it is the result, or goes into the container around it.\<close>

fun reduce :: "json \<Rightarrow> frame list \<Rightarrow> exn + (pstate \<times> frame list)" where
  "reduce v [] = Inr (PDone v, [])"
| "reduce v (FArr xs # st) = Inr (PAfter, FArr (v # xs) # st)"
| "reduce v (FKey kvs k # st) = Inr (PAfter, FObj (dict_set kvs k v) # st)"
| "reduce v (FObj kvs # st) = Inl (JSONDecodeError ''Expecting property name'')"

fun accept_value :: "token \<Rightarrow> frame list \<Rightarrow> exn + (pstate \<times> frame list)" where
  "accept_value (TScalar v) st = reduce v st"
| "accept_value TLBrack st = Inr (PValueOrEnd, FArr [] # st)"
| "accept_value TLBrace st = Inr (PKeyOrEnd, FObj [] # st)"
| "accept_value t st = Inl (JSONDecodeError ''Expecting value'')"

fun accept_key :: "token \<Rightarrow> frame list \<Rightarrow> exn + (pstate \<times> frame list)" where
  "accept_key (TScalar (JStr k)) (FObj kvs # st) = Inr (PColon, FKey kvs k # st)"
| "accept_key t st = Inl (JSONDecodeError ''Expecting property name enclosed in double quotes'')"

fun close_array :: "frame list \<Rightarrow> exn + (pstate \<times> frame list)" where
  "close_array (FArr xs # st) = reduce (JArr (rev xs)) st"
| "close_array st = Inl (JSONDecodeError ''Expecting value'')"

fun close_object :: "frame list \<Rightarrow> exn + (pstate \<times> frame list)" where
  "close_object (FObj kvs # st) = reduce (JObj kvs) st"
| "close_object st = Inl (JSONDecodeError ''Expecting value'')"

fun after_value :: "token \<Rightarrow> frame list \<Rightarrow> exn + (pstate \<times> frame list)" where
  "after_value TComma (FArr xs # st) = Inr (PValue, FArr xs # st)"
| "after_value TRBrack (FArr xs # st) = close_array (FArr xs # st)"
| "after_value TComma (FObj kvs # st) = Inr (PKey, FObj kvs # st)"
| "after_value TRBrace (FObj kvs # st) = close_object (FObj kvs # st)"
| "after_value t st = Inl (JSONDecodeError ''Expecting , delimiter'')"

fun parse_step :: "pstate \<Rightarrow> frame list \<Rightarrow> token \<Rightarrow> exn + (pstate \<times> frame list)" where
  "parse_step PValue st t = accept_value t st"
| "parse_step PValueOrEnd st t = (if t = TRBrack then close_array st else accept_value t st)"
| "parse_step PKeyOrEnd st t = (if t = TRBrace then close_object st else accept_key t st)"
| "parse_step PKey st t = accept_key t st"
| "parse_step PColon st t =
     (if t = TColon then Inr (PValue, st) else Inl (JSONDecodeError ''Expecting : delimiter''))"
| "parse_step PAfter st t = after_value t st"
| "parse_step (PDone v) st t = Inl (JSONDecodeError ''Extra data'')"

fun parse_tokens :: "pstate \<Rightarrow> frame list \<Rightarrow> token list \<Rightarrow> exn + json" where
  "parse_tokens s st [] =
     (case s of PDone v \<Rightarrow> Inr v | _ \<Rightarrow> Inl (JSONDecodeError ''Expecting value''))"
| "parse_tokens s st (t # ts) =
     (case parse_step s st t of
        Inl e \<Rightarrow> Inl e
      | Inr (s', st') \<Rightarrow> parse_tokens s' st' ts)"

definition json_loads :: "string \<Rightarrow> exn + json" where
  "json_loads text = (case lex text of Inl e \<Rightarrow> Inl e | Inr ts \<Rightarrow> parse_tokens PValue [] ts)"

section \<open>Base64\<close>

text \<open>
  \<open>base64.b64encode\<close> and \<open>base64.b64decode\<close> belong to the standard library. The encoder
  is the one of RFC 4648. The decoder is \<open>binascii.a2b_base64\<close> in its default, lenient
  mode: a character outside the alphabet is skipped, a pad character ends the input once
  the current group of four is complete, and input that ends inside a group is refused.
\<close>

definition b64_char :: "nat \<Rightarrow> char" where
  "b64_char n =
     (if n < 26 then char_of (65 + n)
      else if n < 52 then char_of (71 + n)
      else if n < 62 then char_of (n - 4)
      else if n = 62 then CHR ''+''
      else CHR ''/'')"

definition b64_value :: "char \<Rightarrow> nat option" where
  "b64_value c = (let n = (of_char c :: nat) in
     if 65 \<le> n \<and> n \<le> 90 then Some (n - 65)
     else if 97 \<le> n \<and> n \<le> 122 then Some (n - 71)
     else if 48 \<le> n \<and> n \<le> 57 then Some (n + 4)
     else if n = 43 then Some 62
     else if n = 47 then Some 63
     else None)"

fun b64encode :: "byte list \<Rightarrow> string" where
  "b64encode [] = []"
| "b64encode [a] =
     [b64_char (unat a div 4), b64_char (unat a mod 4 * 16), CHR ''='', CHR ''='']"
| "b64encode [a, b] =
     [b64_char (unat a div 4), b64_char (unat a mod 4 * 16 + unat b div 16),
      b64_char (unat b mod 16 * 4), CHR ''='']"
| "b64encode (a # b # c # bs) =
     [b64_char (unat a div 4), b64_char (unat a mod 4 * 16 + unat b div 16),
      b64_char (unat b mod 16 * 4 + unat c div 64), b64_char (unat c mod 64)]
     @ b64encode bs"

text \<open>
  The decoder's loop over the input, with its variables: \<open>quad_pos\<close>, the position in the
  group of four; \<open>leftchar\<close>, the bits of the group not yet written; \<open>pads\<close>, the pad
  characters seen since the last data character; and the bytes written so far.
\<close>

fun a2b_base64 :: "nat \<Rightarrow> nat \<Rightarrow> nat \<Rightarrow> byte list \<Rightarrow> string \<Rightarrow> exn + byte list" where
  "a2b_base64 quad_pos leftchar pads out [] =
     (if quad_pos = 0 then Inr out
      else if quad_pos = 1 then Inl (BinasciiError ''Invalid base64-encoded string'')
      else Inl (BinasciiError ''Incorrect padding''))"
| "a2b_base64 quad_pos leftchar pads out (c # cs) =
     (if c = CHR ''='' then
        (if 2 \<le> quad_pos \<and> 4 \<le> quad_pos + (pads + 1) then Inr out
         else a2b_base64 quad_pos leftchar (if 2 \<le> quad_pos then pads + 1 else pads) out cs)
      else
        (case b64_value c of
           None \<Rightarrow> a2b_base64 quad_pos leftchar pads out cs
         | Some v \<Rightarrow>
             (if quad_pos = 0 then a2b_base64 1 v 0 out cs
              else if quad_pos = 1 then
                a2b_base64 2 (v mod 16) 0 (out @ [of_nat (leftchar * 4 + v div 16)]) cs
              else if quad_pos = 2 then
                a2b_base64 3 (v mod 4) 0 (out @ [of_nat (leftchar * 16 + v div 4)]) cs
              else a2b_base64 0 0 0 (out @ [of_nat (leftchar * 64 + v)]) cs)))"

text \<open>\<open>b64decode\<close> of a \<open>str\<close>: the text must be ASCII, then the decoder runs.\<close>

definition b64decode :: "string \<Rightarrow> exn + byte list" where
  "b64decode s =
     (if filter (\<lambda>c. 128 \<le> (of_char c :: nat)) s \<noteq> []
      then Inl (ValueError ''string argument should contain only ASCII characters'')
      else a2b_base64 0 0 0 [] s)"

subsection \<open>The transport of the artifact\<close>

text \<open>
  The sandbox's side is the shell pipeline the source sends, \<open>cat f | base64 | tr -d '\n'\<close>:
  \<open>base64(1)\<close> prints the encoding in lines of 76 characters, each ended by a newline, and
  \<open>tr\<close> deletes the newlines.
\<close>

function wrap76 :: "string \<Rightarrow> string" where
  "wrap76 s = (if s = [] then [] else take 76 s @ [CHR 0x0A] @ wrap76 (drop 76 s))"
  by pat_completeness auto
termination
  by (relation "measure length") auto

declare wrap76.simps [simp del]

definition tr_d_newline :: "string \<Rightarrow> string" where
  "tr_d_newline s = filter (\<lambda>c. c \<noteq> CHR 0x0A) s"

definition text_safe_encode :: "byte list \<Rightarrow> string" where
  "text_safe_encode bs = tr_d_newline (wrap76 (b64encode bs))"

text \<open>
  The orchestrator's side, lines 97 to 100 of \<open>execute_manim_code\<close>: strip the command's
  output, keep the characters that are alphanumeric or one of \<open>+/=\<close>, decode.
\<close>

definition decode_artifact :: "string \<Rightarrow> exn + byte list" where
  "decode_artifact result =
     (let video_base64 = strip result;
          video_base64_clean =
            filter (\<lambda>c. isalnum c \<or> c = CHR ''+'' \<or> c = CHR ''/'' \<or> c = CHR ''='') video_base64
      in b64decode video_base64_clean)"

section \<open>The world outside\<close>

text \<open>
  The collaborators (the completion service, the sandbox service, the storage bucket, the
  tables, the clock and the identifier generator) are a state and a record of oracles.
  Every call to a service is logged as an event; an oracle sees the events so far and its
  arguments, and answers with a value or an exception. The prompt templates are files
  that are not part of the sources: they are functions of their parameters.
\<close>

datatype event =
    Uuid4
  | UtcNow
  | MessagesCreate string nat string
  | SandboxCreate string
  | SandboxExec string
  | SandboxDelete
  | StorageUpload string "byte list"
  | StoragePublicUrl string
  | StorageList
  | StorageRemove "string list"

record session_row =
  s_id :: string
  s_user_id :: string

text \<open>A row of \<open>questions\<close>. The question and its topic are what the model's JSON held.\<close>

record question_row =
  q_id :: string
  q_session_id :: string
  q_user_id :: string
  q_question :: json
  q_topic :: json
  q_difficulty :: int
  q_attempts :: int
  q_created_at :: string

record video =
  v_name :: string
  v_created_at :: string

record world =
  tbl_sessions :: "session_row list"
  tbl_questions :: "question_row list"
  bucket_videos :: "video list"
  trace :: "event list"

text \<open>A \<open>datetime\<close>, in microseconds since the epoch: with a time zone or without.\<close>

datatype pydatetime = Aware int | Naive int

record env =
  uuid4_value :: "event list \<Rightarrow> string"
  utcnow_isoformat :: "event list \<Rightarrow> string"
  now_utc :: "event list \<Rightarrow> int"
  fromisoformat :: "string \<Rightarrow> exn + pydatetime"
  repr_json :: "json \<Rightarrow> string"
  tmpl_generate_question :: "int \<Rightarrow> json list \<Rightarrow> string"
  tmpl_validate_answer :: "json \<Rightarrow> string \<Rightarrow> string"
  tmpl_generate_hint :: "json \<Rightarrow> string \<Rightarrow> string"
  tmpl_explain_solution :: "json \<Rightarrow> string"
  tmpl_generate_manim :: "json \<Rightarrow> json \<Rightarrow> string"
  messages_create :: "event list \<Rightarrow> string \<Rightarrow> nat \<Rightarrow> string \<Rightarrow> exn + string"
  sandbox_create :: "event list \<Rightarrow> string \<Rightarrow> exn + unit"
  sandbox_exec :: "event list \<Rightarrow> string \<Rightarrow> exn + string"
  sandbox_delete :: "event list \<Rightarrow> exn + unit"
  storage_upload :: "event list \<Rightarrow> string \<Rightarrow> byte list \<Rightarrow> exn + string"
  storage_public_url :: "event list \<Rightarrow> string \<Rightarrow> exn + string"

subsection \<open>Computations\<close>

text \<open>A computation runs in a world and ends with a value or a raised exception.\<close>

type_synonym 'a io = "world \<Rightarrow> (exn + 'a) \<times> world"

definition io_return :: "'a \<Rightarrow> 'a io" where
  "io_return x w = (Inr x, w)"

definition io_raise :: "exn \<Rightarrow> 'a io" where
  "io_raise e w = (Inl e, w)"

definition io_lift :: "exn + 'a \<Rightarrow> 'a io" where
  "io_lift r w = (r, w)"

definition io_bind :: "'a io \<Rightarrow> ('a \<Rightarrow> 'b io) \<Rightarrow> 'b io" where
  "io_bind m f w = (case m w of (Inl e, w') \<Rightarrow> (Inl e, w') | (Inr x, w') \<Rightarrow> f x w')"

text \<open>\<open>try: m except Exception as e: h e\<close>.\<close>

definition io_try :: "'a io \<Rightarrow> (exn \<Rightarrow> 'a io) \<Rightarrow> 'a io" where
  "io_try m h w = (case m w of (Inl e, w') \<Rightarrow> h e w' | (Inr x, w') \<Rightarrow> (Inr x, w'))"

text \<open>A call to a service: the oracle answers, the event is logged.\<close>

definition io_call :: "event \<Rightarrow> (event list \<Rightarrow> exn + 'a) \<Rightarrow> 'a io" where
  "io_call ev oracle w = (oracle (trace w), w\<lparr>trace := trace w @ [ev]\<rparr>)"

text \<open>\<open>str(v)\<close> of a parsed value, as an f-string formats it: a string is itself.\<close>

definition py_str :: "env \<Rightarrow> json \<Rightarrow> string" where
  "py_str env v = (case v of JStr s \<Rightarrow> s | _ \<Rightarrow> repr_json env v)"

definition uuid4 :: "env \<Rightarrow> string io" where
  "uuid4 env = io_call Uuid4 (\<lambda>h. Inr (uuid4_value env h))"

definition client_messages_create :: "env \<Rightarrow> string \<Rightarrow> nat \<Rightarrow> string \<Rightarrow> string io" where
  "client_messages_create env model max_tokens content =
     io_call (MessagesCreate model max_tokens content)
       (\<lambda>h. messages_create env h model max_tokens content)"

definition sandbox_process_exec :: "env \<Rightarrow> string \<Rightarrow> string io" where
  "sandbox_process_exec env command =
     io_call (SandboxExec command) (\<lambda>h. sandbox_exec env h command)"

section \<open>Chat service: structured output\<close>

text \<open>
  Lines 34 to 40 of \<open>generate_next_question\<close>, the same at every call site that expects
  JSON: strip the response, drop an opening fence and a closing fence.
\<close>

definition strip_fences :: "string \<Rightarrow> string" where
  "strip_fences response =
     (let text = strip response;
          text = (if startswith text ''```json'' then drop 7 text else text);
          text = (if startswith text ''```'' then drop 3 text else text);
          text = (if endswith text ''```'' then take (length text - 3) text else text)
      in text)"

text \<open>Lines 48 to 56: parse the text from line \<open>i\<close> on, for each \<open>i\<close> in turn.\<close>

function try_from_line :: "string list \<Rightarrow> nat \<Rightarrow> json option" where
  "try_from_line lines i =
     (if i < length lines then
        (case json_loads (str_join [CHR 0x0A] (drop i lines)) of
           Inr result \<Rightarrow> Some result
         | Inl e \<Rightarrow> try_from_line lines (i + 1))
      else None)"
  by pat_completeness auto
termination
  by (relation "measure (\<lambda>(lines, i). length lines - i)") auto

declare try_from_line.simps [simp del]

text \<open>
  Lines 61 to 71: from the first opening brace on, count the braces; each time the count is
  back at zero on a closing brace, parse the text from the first brace to this one, and
  go on when that fails.
\<close>

function scan_braces :: "string \<Rightarrow> nat \<Rightarrow> nat \<Rightarrow> int \<Rightarrow> json option" where
  "scan_braces text start_idx i brace_count =
     (if i < length text then
        (if text ! i = CHR ''{'' then scan_braces text start_idx (i + 1) (brace_count + 1)
         else if text ! i = CHR ''}'' then
           (if brace_count - 1 = 0 then
              (case json_loads (take (i + 1 - start_idx) (drop start_idx text)) of
                 Inr result \<Rightarrow> Some result
               | Inl e \<Rightarrow> scan_braces text start_idx (i + 1) (brace_count - 1))
            else scan_braces text start_idx (i + 1) (brace_count - 1))
         else scan_braces text start_idx (i + 1) brace_count)
      else None)"
  by pat_completeness auto
termination
  by (relation "measure (\<lambda>(text, start_idx, i, brace_count). length text - i)") auto

declare scan_braces.simps [simp del]

text \<open>
  Lines 41 to 72 of \<open>generate_next_question\<close> and, word for word, lines 96 to 127 of
  \<open>validate_answer\<close>: the direct parse and, when it raises \<open>JSONDecodeError\<close>, the two
  recoveries; when they find nothing, the first error is raised again.
\<close>

definition recover_json :: "string \<Rightarrow> exn + json" where
  "recover_json text0 =
     (let text = strip text0 in
      case json_loads text of
        Inr result \<Rightarrow> Inr result
      | Inl e \<Rightarrow>
          if is_JSONDecodeError e then
            (case try_from_line (str_split (CHR 0x0A) text) 0 of
               Some result \<Rightarrow> Inr result
             | None \<Rightarrow>
                 (case str_find (CHR ''{'') text of
                    None \<Rightarrow> Inl e
                  | Some start_idx \<Rightarrow>
                      (case scan_braces text start_idx start_idx 0 of
                         Some result \<Rightarrow> Inr result
                       | None \<Rightarrow> Inl e)))
          else Inl e)"

definition generate_next_question :: "env \<Rightarrow> string \<Rightarrow> int \<Rightarrow> json list \<Rightarrow> json io" where
  "generate_next_question env topic difficulty previous_questions =
     (let prompt = tmpl_generate_question env difficulty (take 5 previous_questions) in
      io_bind (client_messages_create env ''claude-haiku-4-5-20251001'' 1024
                 (''You are a mathematics teaching assistant. Generate educational questions.''
                  @ [CHR 0x0A, CHR 0x0A] @ prompt))
        (\<lambda>response. io_lift (recover_json (strip_fences response))))"

definition validate_answer :: "env \<Rightarrow> json \<Rightarrow> string \<Rightarrow> json io" where
  "validate_answer env question user_answer =
     (let prompt = tmpl_validate_answer env question user_answer in
      io_bind (client_messages_create env ''claude-haiku-4-5-20251001'' 1024
                 (''You are a mathematics teaching assistant. Evaluate answers fairly and provide constructive feedback.''
                  @ [CHR 0x0A, CHR 0x0A] @ prompt))
        (\<lambda>response. io_lift (recover_json (strip_fences response))))"

definition default_hint :: string where
  "default_hint = ''Try breaking down the problem into smaller steps.''"

text \<open>
  Lines 150 to 154 of \<open>generate_hint\<close>: the direct parse only, and the default hint for
  any exception, of the parse or of \<open>get\<close>.
\<close>

definition hint_of_text :: "string \<Rightarrow> json" where
  "hint_of_text text =
     (case json_loads text of
        Inl e \<Rightarrow> JStr default_hint
      | Inr result \<Rightarrow>
          (case dict_get result ''hint'' (JStr default_hint) of
             Inl e \<Rightarrow> JStr default_hint
           | Inr hint \<Rightarrow> hint))"

definition generate_hint :: "env \<Rightarrow> json \<Rightarrow> string \<Rightarrow> json io" where
  "generate_hint env question user_answer =
     (let prompt = tmpl_generate_hint env question user_answer in
      io_bind (client_messages_create env ''claude-haiku-4-5-20251001'' 512 prompt)
        (\<lambda>response. io_return (hint_of_text (strip (strip_fences response)))))"

section \<open>Video pipeline\<close>

definition generate_explanation :: "env \<Rightarrow> json \<Rightarrow> json io" where
  "generate_explanation env question =
     (let prompt = tmpl_explain_solution env question in
      io_bind (client_messages_create env ''claude-haiku-4-5-20251001'' 1024 prompt)
        (\<lambda>message.
           io_bind (io_lift (json_loads (strip (strip_fences message))))
             (\<lambda>result. io_lift (getitem result ''explanation''))))"

text \<open>Lines 57 to 64 of \<open>generate_manim_code\<close>: the fences of a code block.\<close>

definition strip_code_fences :: "string \<Rightarrow> string" where
  "strip_code_fences message =
     (let code = strip message;
          code = (if startswith code ''```python'' then drop 9 code else code);
          code = (if startswith code ''```'' then drop 3 code else code);
          code = (if endswith code ''```'' then take (length code - 3) code else code)
      in strip code)"

definition generate_manim_code :: "env \<Rightarrow> json \<Rightarrow> json \<Rightarrow> string io" where
  "generate_manim_code env question explanation =
     (let prompt = tmpl_generate_manim env question explanation in
      io_bind (client_messages_create env ''claude-sonnet-4-5-20250929'' 2048 prompt)
        (\<lambda>message. io_return (strip_code_fences message)))"

definition get_or_generate_code :: "env \<Rightarrow> json \<Rightarrow> string io" where
  "get_or_generate_code env question =
     io_bind (generate_explanation env question)
       (\<lambda>explanation. generate_manim_code env question explanation)"

text \<open>The commands of \<open>execute_manim_code\<close>.\<close>

definition write_command :: "string \<Rightarrow> string" where
  "write_command code_b64 = ''echo '' @ [CHR 0x27] @ code_b64 @ [CHR 0x27] @ '' | base64 -d > scene.py''"

definition verify_command :: string where
  "verify_command = ''wc -l scene.py && head -5 scene.py''"

definition render_command :: string where
  "render_command = ''python3 -m manim -ql scene.py ExplanationScene 2>&1''"

definition find_command :: string where
  "find_command = ''find media -name '' @ [CHR 0x27] @ ''ExplanationScene.mp4'' @ [CHR 0x27]
     @ '' -type f 2>/dev/null''"

definition cat_command :: "string \<Rightarrow> string" where
  "cat_command video_path =
     ''cat '' @ video_path @ '' | base64 | tr -d '' @ [CHR 0x27, CHR 0x5C, CHR ''n'', CHR 0x27]"

definition execute_manim_code :: "env \<Rightarrow> string \<Rightarrow> (byte list \<times> string) io" where
  "execute_manim_code env manim_code =
     io_bind (io_call (SandboxCreate ''manim-voiceover-v4'')
                (\<lambda>h. sandbox_create env h ''manim-voiceover-v4''))
       (\<lambda>sandbox.
     (let code_safe = filter (\<lambda>c. (of_char c :: nat) < 128) manim_code;
          code_b64 = b64encode (map (\<lambda>c. of_nat (of_char c)) code_safe)
      in
     io_bind (sandbox_process_exec env (write_command code_b64))
       (\<lambda>write_result.
     io_bind (sandbox_process_exec env verify_command)
       (\<lambda>verify_result.
     io_bind (sandbox_process_exec env render_command)
       (\<lambda>render_result.
     io_bind (sandbox_process_exec env find_command)
       (\<lambda>video_path_result.
     (let video_path = strip video_path_result in
      if video_path = [] then
        io_raise (Exception (''Video not found. Code verify: '' @ take 200 verify_result
                             @ ''. Render: '' @ take 1000 render_result))
      else
     io_bind (sandbox_process_exec env (cat_command video_path))
       (\<lambda>video_content_result.
     io_bind (io_lift (decode_artifact video_content_result))
       (\<lambda>video_bytes.
     io_bind (io_call SandboxDelete (sandbox_delete env))
       (\<lambda>deleted.
     io_return (video_bytes, render_result)))))))))))"

text \<open>
  The bucket: an upload with \<open>x-upsert\<close> replaces the object of the same name or adds a
  new one; the service stamps it.
\<close>

fun upsert_video :: "video list \<Rightarrow> video \<Rightarrow> video list" where
  "upsert_video [] v = [v]"
| "upsert_video (x # xs) v = (if v_name x = v_name v then v # xs else x # upsert_video xs v)"

definition storage_upload_io :: "env \<Rightarrow> string \<Rightarrow> byte list \<Rightarrow> unit io" where
  "storage_upload_io env file_path video_bytes w =
     (case storage_upload env (trace w) file_path video_bytes of
        Inl e \<Rightarrow> (Inl e, w\<lparr>trace := trace w @ [StorageUpload file_path video_bytes]\<rparr>)
      | Inr stamp \<Rightarrow>
          (Inr (),
           w\<lparr>bucket_videos :=
                upsert_video (bucket_videos w) \<lparr>v_name = file_path, v_created_at = stamp\<rparr>,
             trace := trace w @ [StorageUpload file_path video_bytes]\<rparr>))"

definition upload_to_supabase :: "env \<Rightarrow> byte list \<Rightarrow> string \<Rightarrow> string io" where
  "upload_to_supabase env video_bytes video_id =
     (let file_path = video_id @ ''.mp4'' in
      io_bind (storage_upload_io env file_path video_bytes)
        (\<lambda>uploaded.
      io_bind (io_call (StoragePublicUrl file_path) (\<lambda>h. storage_public_url env h file_path))
        (\<lambda>public_url. io_return public_url)))"

subsection \<open>Retention sweep\<close>

text \<open>\<open>created_at.replace('Z', '+00:00')\<close>.\<close>

definition replace_Z :: "string \<Rightarrow> string" where
  "replace_Z s = concat (map (\<lambda>c. if c = CHR ''Z'' then ''+00:00'' else [c]) s)"

text \<open>
  \<open>datetime.fromisoformat(...) < cutoff_time\<close>, the cutoff carrying a time zone: the
  parse may raise, and a time without zone cannot be compared with the cutoff.
\<close>

definition is_older :: "env \<Rightarrow> string \<Rightarrow> int \<Rightarrow> exn + bool" where
  "is_older env created_at cutoff_time =
     (case fromisoformat env (replace_Z created_at) of
        Inl e \<Rightarrow> Inl e
      | Inr (Aware t) \<Rightarrow> Inr (t < cutoff_time)
      | Inr (Naive t) \<Rightarrow> Inl (TypeError ''cannot compare offset-naive and offset-aware datetimes''))"

text \<open>The list comprehension of lines 122 to 125, in the order of the listing.\<close>

fun old_video_names :: "env \<Rightarrow> int \<Rightarrow> video list \<Rightarrow> exn + string list" where
  "old_video_names env cutoff_time [] = Inr []"
| "old_video_names env cutoff_time (video # videos) =
     (case is_older env (v_created_at video) cutoff_time of
        Inl e \<Rightarrow> Inl e
      | Inr older \<Rightarrow>
          (case old_video_names env cutoff_time videos of
             Inl e \<Rightarrow> Inl e
           | Inr names \<Rightarrow> Inr (if older then v_name video # names else names)))"

definition storage_list :: "video list io" where
  "storage_list w = (Inr (bucket_videos w), w\<lparr>trace := trace w @ [StorageList]\<rparr>)"

definition storage_remove :: "string list \<Rightarrow> unit io" where
  "storage_remove names w =
     (Inr (),
      w\<lparr>bucket_videos := filter (\<lambda>v. v_name v \<notin> set names) (bucket_videos w),
        trace := trace w @ [StorageRemove names]\<rparr>)"

record cleanup_result =
  cl_deleted :: nat
  cl_files :: "string list"

definition one_day :: int where
  "one_day = 86400 * 1000000"

definition cleanup_old_videos :: "env \<Rightarrow> cleanup_result io" where
  "cleanup_old_videos env =
     io_bind (io_call UtcNow (\<lambda>h. Inr (now_utc env h)))
       (\<lambda>now.
     (let cutoff_time = now - one_day in
     io_bind storage_list
       (\<lambda>videos.
     io_bind (io_lift (old_video_names env cutoff_time videos))
       (\<lambda>old_videos.
     io_bind (if old_videos \<noteq> [] then storage_remove old_videos else io_return ())
       (\<lambda>removed.
     io_return \<lparr>cl_deleted = length old_videos, cl_files = old_videos\<rparr>)))))"

subsection \<open>The pipeline\<close>

record video_result =
  res_video_id :: string
  res_status :: string
  res_video_url :: "string option"
  res_error :: "string option"

definition generate_video :: "env \<Rightarrow> json \<Rightarrow> video_result io" where
  "generate_video env question =
     io_bind (uuid4 env)
       (\<lambda>video_id.
     io_try
       (io_bind (get_or_generate_code env question)
          (\<lambda>manim_code.
        io_bind (execute_manim_code env manim_code)
          (\<lambda>(video_bytes, render_log).
        io_bind (upload_to_supabase env video_bytes video_id)
          (\<lambda>video_url.
        io_return \<lparr>res_video_id = video_id, res_status = ''completed'',
                    res_video_url = Some video_url, res_error = None\<rparr>))))
       (\<lambda>e.
        io_return \<lparr>res_video_id = video_id, res_status = ''failed'',
                    res_video_url = None, res_error = Some (str_exn e)\<rparr>))"

section \<open>Question engine\<close>

text \<open>
  Lines 19 to 23 of \<open>get_next_question\<close>: the difficulty argument is \<open>None\<close> or an
  integer; \<open>question_count\<close> is the length of the session's question list.
\<close>

definition derive_difficulty :: "int option \<Rightarrow> nat \<Rightarrow> int" where
  "derive_difficulty difficulty question_count =
     (case difficulty of
        None \<Rightarrow> min (1 + int question_count div 3) 10
      | Some d \<Rightarrow> max 1 (min 10 d))"

text \<open>\<open>.eq("id", ...).single().execute()\<close>: exactly one row, or the request fails.\<close>

definition single :: "'a list \<Rightarrow> 'a io" where
  "single rows =
     (case rows of
        [row] \<Rightarrow> io_return row
      | _ \<Rightarrow> io_raise (APIError ''JSON object requested, multiple (or no) rows returned''))"

definition select_session :: "string \<Rightarrow> session_row io" where
  "select_session session_id w =
     single (filter (\<lambda>r. s_id r = session_id) (tbl_sessions w)) w"

definition select_question :: "string \<Rightarrow> question_row io" where
  "select_question question_id w =
     single (filter (\<lambda>r. q_id r = question_id) (tbl_questions w)) w"

definition select_session_questions :: "string \<Rightarrow> question_row list io" where
  "select_session_questions session_id w =
     (Inr (filter (\<lambda>r. q_session_id r = session_id) (tbl_questions w)), w)"

definition insert_question :: "question_row \<Rightarrow> unit io" where
  "insert_question row w = (Inr (), w\<lparr>tbl_questions := tbl_questions w @ [row]\<rparr>)"

definition update_attempts :: "string \<Rightarrow> int \<Rightarrow> unit io" where
  "update_attempts question_id new_attempts w =
     (Inr (),
      w\<lparr>tbl_questions :=
           map (\<lambda>r. if q_id r = question_id then r\<lparr>q_attempts := new_attempts\<rparr> else r)
             (tbl_questions w)\<rparr>)"

record question_response =
  nq_question_id :: string
  nq_question :: json
  nq_topic :: json
  nq_difficulty :: int

definition get_next_question :: "env \<Rightarrow> string \<Rightarrow> int option \<Rightarrow> question_response io" where
  "get_next_question env session_id difficulty0 =
     io_bind (select_session session_id)
       (\<lambda>session.
     (let user_id = s_user_id session in
     io_bind (select_session_questions session_id)
       (\<lambda>all_questions.
     (let difficulty = derive_difficulty difficulty0 (length all_questions);
          topic = ''Long Division'';
          previous_questions = map q_question all_questions
      in
     io_bind (generate_next_question env topic difficulty previous_questions)
       (\<lambda>question_data.
     io_bind (uuid4 env)
       (\<lambda>question_id.
     io_bind (io_lift (getitem question_data ''question''))
       (\<lambda>question.
     io_bind (io_lift (dict_get question_data ''topic'' (JStr topic)))
       (\<lambda>question_topic.
     io_bind (io_call UtcNow (\<lambda>h. Inr (utcnow_isoformat env h)))
       (\<lambda>created_at.
     io_bind (insert_question
                \<lparr>q_id = question_id, q_session_id = session_id, q_user_id = user_id,
                 q_question = question, q_topic = question_topic, q_difficulty = difficulty,
                 q_attempts = 0, q_created_at = created_at\<rparr>)
       (\<lambda>inserted.
     io_return \<lparr>nq_question_id = question_id, nq_question = question,
                 nq_topic = question_topic, nq_difficulty = difficulty\<rparr>))))))))))"

record answer_validation =
  ans_correct :: json
  ans_attempts :: int
  ans_feedback :: json
  ans_offer_video :: bool
  ans_question :: json
  ans_topic :: json

definition validate_user_answer :: "env \<Rightarrow> string \<Rightarrow> string \<Rightarrow> string \<Rightarrow> answer_validation io" where
  "validate_user_answer env session_id question_id answer =
     io_bind (select_question question_id)
       (\<lambda>question_data.
     io_bind (validate_answer env (q_question question_data) answer)
       (\<lambda>validation.
     (let new_attempts = q_attempts question_data + 1 in
     io_bind (update_attempts question_id new_attempts)
       (\<lambda>updated.
     io_bind (io_lift (getitem validation ''correct''))
       (\<lambda>correct.
     io_bind
       (if truthy correct then io_lift (getitem validation ''feedback'')
        else if new_attempts = 1 then io_return (JStr ''Incorrect. Please try again.'')
        else if new_attempts = 2 then
          io_bind (generate_hint env (q_question question_data) answer)
            (\<lambda>hint. io_return (JStr (''Not quite right. Here's a hint: '' @ py_str env hint)))
        else
          io_bind (io_lift (getitem validation ''feedback''))
            (\<lambda>model_feedback.
               io_return (JStr (''That's not correct. '' @ py_str env model_feedback))))
       (\<lambda>feedback.
     io_return \<lparr>ans_correct = correct, ans_attempts = new_attempts, ans_feedback = feedback,
                 ans_offer_video = (\<not> truthy correct \<and> new_attempts \<ge> 3),
                 ans_question = q_question question_data,
                 ans_topic = q_topic question_data\<rparr>))))))"

definition generate_video_for_question :: "env \<Rightarrow> string \<Rightarrow> string \<Rightarrow> video_result io" where
  "generate_video_for_question env session_id question_id =
     io_bind (select_question question_id)
       (\<lambda>question_data. generate_video env (q_question question_data))"

section \<open>Scenarios\<close>

text \<open>
  Concrete collaborators, for running the functions on concrete inputs. \<open>quiet_env\<close> is
  a world where every service answers with an empty text and nothing fails; a scenario
  changes the oracles it is about.
\<close>

definition quiet_env :: env where
  "quiet_env =
     \<lparr>uuid4_value = (\<lambda>h. ''6f1c1a52-0b7e-4c58-9a55-2f4f3c1d9e10''),
      utcnow_isoformat = (\<lambda>h. ''2026-01-03T12:00:00''),
      now_utc = (\<lambda>h. 1767441600000000),
      fromisoformat = (\<lambda>s. Inl (ValueError ''Invalid isoformat string'')),
      repr_json = (\<lambda>v. ''''),
      tmpl_generate_question = (\<lambda>difficulty previous_questions. ''''),
      tmpl_validate_answer = (\<lambda>question user_answer. ''''),
      tmpl_generate_hint = (\<lambda>question user_answer. ''''),
      tmpl_explain_solution = (\<lambda>question. ''''),
      tmpl_generate_manim = (\<lambda>question explanation. ''''),
      messages_create = (\<lambda>h model max_tokens content. Inr ''''),
      sandbox_create = (\<lambda>h snapshot. Inr ()),
      sandbox_exec = (\<lambda>h command. Inr ''''),
      sandbox_delete = (\<lambda>h. Inr ()),
      storage_upload = (\<lambda>h file_path video_bytes. Inr ''2026-01-03T12:00:00.000Z''),
      storage_public_url = (\<lambda>h file_path. Inr (''https://storage.example/videos/'' @ file_path))\<rparr>"

definition empty_world :: world where
  "empty_world = \<lparr>tbl_sessions = [], tbl_questions = [], bucket_videos = [], trace = []\<rparr>"

text \<open>
  Scenario C of the specification: at noon of 3 January 2026 the bucket holds three
  videos, made 25 hours, 23 hours and 2 days earlier.
\<close>

definition sweep_fromisoformat :: "string \<Rightarrow> exn + pydatetime" where
  "sweep_fromisoformat s =
     (if s = ''2026-01-02T11:00:00.000+00:00'' then Inr (Aware 1767351600000000)
      else if s = ''2026-01-02T13:00:00.000+00:00'' then Inr (Aware 1767358800000000)
      else if s = ''2026-01-01T12:00:00.000+00:00'' then Inr (Aware 1767268800000000)
      else Inl (ValueError ''Invalid isoformat string''))"

definition sweep_env :: env where
  "sweep_env = quiet_env\<lparr>fromisoformat := sweep_fromisoformat\<rparr>"

definition sweep_videos :: "video list" where
  "sweep_videos =
     [\<lparr>v_name = ''a.mp4'', v_created_at = ''2026-01-02T11:00:00.000Z''\<rparr>,
      \<lparr>v_name = ''b.mp4'', v_created_at = ''2026-01-02T13:00:00.000Z''\<rparr>,
      \<lparr>v_name = ''c.mp4'', v_created_at = ''2026-01-01T12:00:00.000Z''\<rparr>]"

definition sweep_created :: "video \<Rightarrow> int" where
  "sweep_created v =
     (if v_name v = ''a.mp4'' then 1767351600000000
      else if v_name v = ''b.mp4'' then 1767358800000000
      else 1767268800000000)"

text \<open>
  A tutoring session: the completion service answers the judging call with \<open>verdict\<close> and
  the hint call (the one with 512 tokens) with \<open>hint_reply\<close>.
\<close>

definition tutor_env :: "string \<Rightarrow> string \<Rightarrow> env" where
  "tutor_env verdict hint_reply =
     quiet_env\<lparr>messages_create :=
       (\<lambda>h model max_tokens content. if max_tokens = 512 then Inr hint_reply else Inr verdict)\<rparr>"

definition wrong_verdict :: string where
  "wrong_verdict = ''{\"correct\": false, \"feedback\": \"Check the remainder.\"}''"

definition right_verdict :: string where
  "right_verdict = ''{\"correct\": true, \"feedback\": \"Well done.\"}''"

definition hint_reply :: string where
  "hint_reply = ''{\"hint\": \"Divide 12 by 3 first.\"}''"

definition asked_question :: "int \<Rightarrow> question_row" where
  "asked_question n =
     \<lparr>q_id = ''q1'', q_session_id = ''s1'', q_user_id = ''u1'',
      q_question = JStr ''12 / 3 = ?'', q_topic = JStr ''Long Division'',
      q_difficulty = 1, q_attempts = n, q_created_at = ''2026-01-03T11:00:00''\<rparr>"

definition asked_world :: "int \<Rightarrow> world" where
  "asked_world n = empty_world\<lparr>tbl_questions := [asked_question n]\<rparr>"

section \<open>Properties\<close>

subsection \<open>Computations step by step\<close>

lemma io_bind_return: "io_bind (io_return x) f w = f x w"
  by (simp add: io_bind_def io_return_def)

lemma io_bind_raise: "io_bind (io_raise e) f w = (Inl e, w)"
  by (simp add: io_bind_def io_raise_def)

lemma io_bind_lift:
  "io_bind (io_lift r) f w = (case r of Inl e \<Rightarrow> (Inl e, w) | Inr x \<Rightarrow> f x w)"
  by (simp add: io_bind_def io_lift_def split: sum.splits)

lemma io_bind_call:
  "io_bind (io_call ev oracle) f w =
     (case oracle (trace w) of
        Inl e \<Rightarrow> (Inl e, w\<lparr>trace := trace w @ [ev]\<rparr>)
      | Inr x \<Rightarrow> f x (w\<lparr>trace := trace w @ [ev]\<rparr>))"
  by (simp add: io_bind_def io_call_def split: sum.splits)

lemmas io_steps = io_bind_return io_bind_raise io_bind_lift io_bind_call

lemmas io_defs = io_bind_def io_return_def io_raise_def io_lift_def io_call_def io_try_def


lemma io_bind_Inr: "m w = (Inr x, w') \<Longrightarrow> io_bind m f w = f x w'"
  by (simp add: io_bind_def)

lemma io_bind_Inl: "m w = (Inl e, w') \<Longrightarrow> io_bind m f w = (Inl e, w')"
  by (simp add: io_bind_def)

subsection \<open>The scenarios, evaluated\<close>

lemma wrong_verdict_parsed:
  "recover_json (strip_fences wrong_verdict) =
     Inr (JObj [(''correct'', JBool False), (''feedback'', JStr ''Check the remainder.'')])"
  by code_simp

lemma right_verdict_parsed:
  "recover_json (strip_fences right_verdict) =
     Inr (JObj [(''correct'', JBool True), (''feedback'', JStr ''Well done.'')])"
  by code_simp

lemma hint_reply_parsed:
  "hint_of_text (strip (strip_fences hint_reply)) = JStr ''Divide 12 by 3 first.''"
  by code_simp

subsection \<open>The round trip of the artifact encoding\<close>

lemma b64_char_cases:
  assumes "n < 64"
  obtains "n < 26" and "(of_char (b64_char n) :: nat) = 65 + n"
  | "26 \<le> n" and "n < 52" and "(of_char (b64_char n) :: nat) = 71 + n"
  | "52 \<le> n" and "n < 62" and "(of_char (b64_char n) :: nat) = n - 4"
  | "n = 62" and "b64_char n = CHR ''+''"
  | "n = 63" and "b64_char n = CHR ''/''"
proof -
  consider "n < 26" | "26 \<le> n \<and> n < 52" | "52 \<le> n \<and> n < 62" | "n = 62" | "n = 63"
    using assms by linarith
  then show thesis
  proof cases
    case 1
    then show ?thesis using that(1) by (simp add: b64_char_def)
  next
    case 2
    then show ?thesis using that(2) by (simp add: b64_char_def)
  next
    case 3
    then have "(n - 4) mod 256 = n - 4" by (intro mod_less) linarith
    with 3 show ?thesis using that(3) by (simp add: b64_char_def)
  next
    case 4
    then show ?thesis using that(4) by (simp add: b64_char_def)
  next
    case 5
    then show ?thesis using that(5) by (simp add: b64_char_def)
  qed
qed

lemma b64_value_b64_char: "n < 64 \<Longrightarrow> b64_value (b64_char n) = Some n"
  by (erule b64_char_cases) (auto simp: b64_value_def Let_def)

lemma b64_char_range:
  assumes "n < 64"
  obtains "65 \<le> (of_char (b64_char n) :: nat)" and "(of_char (b64_char n) :: nat) \<le> 90"
  | "97 \<le> (of_char (b64_char n) :: nat)" and "(of_char (b64_char n) :: nat) \<le> 122"
  | "48 \<le> (of_char (b64_char n) :: nat)" and "(of_char (b64_char n) :: nat) \<le> 57"
  | "b64_char n = CHR ''+''"
  | "b64_char n = CHR ''/''"
  using assms
proof (cases rule: b64_char_cases)
  case 1
  then show ?thesis using that(1) by linarith
next
  case 2
  then show ?thesis using that(2) by linarith
next
  case 3
  then show ?thesis using that(3) by linarith
next
  case 4
  then show ?thesis using that(4) by blast
next
  case 5
  then show ?thesis using that(5) by blast
qed

lemma b64_char_not_pad: "n < 64 \<Longrightarrow> b64_char n \<noteq> CHR ''=''"
proof
  assume "n < 64" and eq: "b64_char n = CHR ''=''"
  then have "(of_char (b64_char n) :: nat) = 61" by simp
  with \<open>n < 64\<close> eq show False by (elim b64_char_range) simp_all
qed

lemma b64_char_not_newline: "n < 64 \<Longrightarrow> b64_char n \<noteq> CHR 0x0A"
proof
  assume "n < 64" and eq: "b64_char n = CHR 0x0A"
  then have "(of_char (b64_char n) :: nat) = 10" by simp
  with \<open>n < 64\<close> eq show False by (elim b64_char_range) simp_all
qed

lemma b64_char_kept:
  "n < 64 \<Longrightarrow> isalnum (b64_char n) \<or> b64_char n = CHR ''+'' \<or> b64_char n = CHR ''/''"
  by (erule b64_char_range) (simp_all add: isalnum_def Let_def)

lemma b64_char_not_space: "n < 64 \<Longrightarrow> \<not> isspace (b64_char n)"
  by (erule b64_char_range) (simp_all add: isspace_def Let_def)

lemma b64_char_ascii: "n < 64 \<Longrightarrow> (of_char (b64_char n) :: nat) < 128"
  by (erule b64_char_range) simp_all

lemma unat_byte: "unat (a :: byte) < 256"
  using unsigned_less [of a, where ?'a = nat] by simp

lemma of_nat_unat_byte: "of_nat (unat (a :: byte)) = a"
  by simp

lemma sextet_bounds:
  fixes a b c :: nat
  assumes "a < 256" and "b < 256" and "c < 256"
  shows "a div 4 < 64" and "a mod 4 * 16 + b div 16 < 64"
    and "b mod 16 * 4 + c div 64 < 64" and "c mod 64 < 64"
proof -
  have "a mod 4 \<le> 3" "b mod 16 \<le> 15" by simp_all
  moreover have "b div 16 \<le> 15" "c div 64 \<le> 3" "a div 4 \<le> 63"
    using assms by simp_all
  ultimately show "a div 4 < 64" and "a mod 4 * 16 + b div 16 < 64"
    and "b mod 16 * 4 + c div 64 < 64" and "c mod 64 < 64"
    by simp_all
qed

lemma b64_char_ok:
  "n < 64 \<Longrightarrow>
     (isalnum (b64_char n) \<or> b64_char n = CHR ''+'' \<or> b64_char n = CHR ''/'' \<or> b64_char n = CHR ''='')
     \<and> \<not> isspace (b64_char n) \<and> b64_char n \<noteq> CHR 0x0A \<and> (of_char (b64_char n) :: nat) < 128"
  using b64_char_kept [of n] b64_char_not_space [of n] b64_char_not_newline [of n]
    b64_char_ascii [of n]
  by blast

lemma pad_ok:
  "(isalnum (CHR ''='') \<or> CHR ''='' = CHR ''+'' \<or> CHR ''='' = CHR ''/'' \<or> CHR ''='' = CHR ''='')
     \<and> \<not> isspace (CHR ''='') \<and> CHR ''='' \<noteq> CHR 0x0A \<and> (of_char (CHR ''='') :: nat) < 128"
  by (simp add: isspace_def)

lemma b64encode_chars:
  "c \<in> set (b64encode bs) \<Longrightarrow>
     (isalnum c \<or> c = CHR ''+'' \<or> c = CHR ''/'' \<or> c = CHR ''='')
     \<and> \<not> isspace c \<and> c \<noteq> CHR 0x0A \<and> (of_char c :: nat) < 128"
proof (induction bs rule: b64encode.induct)
  case 1
  then show ?case by simp
next
  case (2 a)
  have b: "unat a div 4 < 64" "unat a mod 4 * 16 < 64"
    using sextet_bounds [OF unat_byte [of a] unat_byte [of 0] unat_byte [of 0]] by simp_all
  from 2 have "c = b64_char (unat a div 4) \<or> c = b64_char (unat a mod 4 * 16) \<or> c = CHR ''=''"
    by auto
  then show ?case
    using b64_char_ok [OF b(1)] b64_char_ok [OF b(2)] pad_ok by metis
next
  case (3 a b)
  have b: "unat a div 4 < 64" "unat a mod 4 * 16 + unat b div 16 < 64" "unat b mod 16 * 4 < 64"
    using sextet_bounds [OF unat_byte [of a] unat_byte [of b] unat_byte [of 0]] by simp_all
  from 3 have "c = b64_char (unat a div 4) \<or> c = b64_char (unat a mod 4 * 16 + unat b div 16)
      \<or> c = b64_char (unat b mod 16 * 4) \<or> c = CHR ''=''"
    by auto
  then show ?case
    using b64_char_ok [OF b(1)] b64_char_ok [OF b(2)] b64_char_ok [OF b(3)] pad_ok by metis
next
  case (4 a b c' bs)
  have b: "unat a div 4 < 64" "unat a mod 4 * 16 + unat b div 16 < 64"
    "unat b mod 16 * 4 + unat c' div 64 < 64" "unat c' mod 64 < 64"
    by (rule sextet_bounds [OF unat_byte unat_byte unat_byte])+
  from "4.prems" have "c = b64_char (unat a div 4)
      \<or> c = b64_char (unat a mod 4 * 16 + unat b div 16)
      \<or> c = b64_char (unat b mod 16 * 4 + unat c' div 64)
      \<or> c = b64_char (unat c' mod 64) \<or> c \<in> set (b64encode bs)"
    by auto
  then show ?case
    using b64_char_ok [OF b(1)] b64_char_ok [OF b(2)] b64_char_ok [OF b(3)]
      b64_char_ok [OF b(4)] "4.IH"
    by metis
qed

lemma tr_d_newline_wrap76:
  "CHR 0x0A \<notin> set s \<Longrightarrow> tr_d_newline (wrap76 s) = s"
proof (induction s rule: wrap76.induct)
  case (1 s)
  show ?case
  proof (cases "s = []")
    case True
    then show ?thesis by (simp add: tr_d_newline_def wrap76.simps)
  next
    case False
    have "CHR 0x0A \<notin> set (drop 76 s)"
      using "1.prems" by (meson in_set_dropD)
    with False "1.IH" have ih: "tr_d_newline (wrap76 (drop 76 s)) = drop 76 s" by simp
    have "CHR 0x0A \<notin> set (take 76 s)"
      using "1.prems" by (meson in_set_takeD)
    then have tk: "filter (\<lambda>c. c \<noteq> CHR 0x0A) (take 76 s) = take 76 s"
      by (auto simp: filter_id_conv)
    have "tr_d_newline (wrap76 s) =
        filter (\<lambda>c. c \<noteq> CHR 0x0A) (take 76 s) @ tr_d_newline (wrap76 (drop 76 s))"
      using False by (subst wrap76.simps) (simp add: tr_d_newline_def)
    with ih tk show ?thesis by simp
  qed
qed

lemma strip_no_space: "\<forall>c \<in> set s. \<not> isspace c \<Longrightarrow> strip s = s"
proof -
  assume a: "\<forall>c \<in> set s. \<not> isspace c"
  then have "dropWhile isspace s = s"
    by (cases s) auto
  moreover from a have "rev s = [] \<or> \<not> isspace (hd (rev s))"
    by (cases s rule: rev_cases) auto
  then have "dropWhile isspace (rev s) = rev s"
    by (simp add: dropWhile_eq_self_iff)
  ultimately show ?thesis by (simp add: strip_def)
qed

lemma a2b_base64_data:
  assumes "n < 64"
  shows "a2b_base64 0 l p out (b64_char n # cs) = a2b_base64 1 n 0 out cs"
    and "a2b_base64 1 l p out (b64_char n # cs) =
           a2b_base64 2 (n mod 16) 0 (out @ [of_nat (l * 4 + n div 16)]) cs"
    and "a2b_base64 2 l p out (b64_char n # cs) =
           a2b_base64 3 (n mod 4) 0 (out @ [of_nat (l * 16 + n div 4)]) cs"
    and "a2b_base64 3 l p out (b64_char n # cs) =
           a2b_base64 0 0 0 (out @ [of_nat (l * 64 + n)]) cs"
  using assms by (simp_all add: b64_value_b64_char b64_char_not_pad)

lemma a2b_base64_pad:
  "a2b_base64 q l p out (CHR ''='' # cs) =
     (if 2 \<le> q \<and> 4 \<le> q + (p + 1) then Inr out
      else a2b_base64 q l (if 2 \<le> q then p + 1 else p) out cs)"
  by simp

lemma sextets_first: "b < 256 \<Longrightarrow> a div 4 * 4 + (a mod 4 * 16 + b div 16) div 16 = (a :: nat)"
  by simp

lemma sextets_second:
  "b < 256 \<Longrightarrow> c < 256 \<Longrightarrow>
     (a mod 4 * 16 + b div 16) mod 16 * 16 + (b mod 16 * 4 + c div 64) div 4 = (b :: nat)"
  by simp

lemma sextets_third:
  "c < 256 \<Longrightarrow> (b mod 16 * 4 + c div 64) mod 4 * 64 + c mod 64 = (c :: nat)"
  by simp

lemma a2b_base64_b64encode:
  "a2b_base64 0 0 0 out (b64encode bs) = Inr (out @ bs)"
proof (induction bs arbitrary: out rule: b64encode.induct)
  case 1
  then show ?case by simp
next
  case (2 a)
  have bd: "unat a div 4 < 64" "unat a mod 4 * 16 < 64"
    using sextet_bounds [OF unat_byte [of a] unat_byte [of 0] unat_byte [of 0]] by simp_all
  have "unat a div 4 * 4 + unat a mod 4 * 16 div 16 = unat a"
    using sextets_first [of 0 "unat a"] by simp
  then have b1: "(of_nat (unat a div 4 * 4 + unat a mod 4 * 16 div 16) :: byte) = a"
    by (simp only: of_nat_unat_byte)
  have "a2b_base64 0 0 0 out (b64encode [a]) =
      a2b_base64 2 (unat a mod 4 * 16 mod 16) 0 (out @ [a]) ''==''"
    by (simp only: b64encode.simps a2b_base64_data [OF bd(1)] a2b_base64_data [OF bd(2)] b1)
  then show ?case
    by (simp add: a2b_base64_pad del: a2b_base64.simps(2))
next
  case (3 a b)
  have bd: "unat a div 4 < 64" "unat a mod 4 * 16 + unat b div 16 < 64" "unat b mod 16 * 4 < 64"
    using sextet_bounds [OF unat_byte [of a] unat_byte [of b] unat_byte [of 0]] by simp_all
  have b1: "(of_nat (unat a div 4 * 4 + (unat a mod 4 * 16 + unat b div 16) div 16) :: byte) = a"
    by (simp only: sextets_first [OF unat_byte] of_nat_unat_byte)
  have "(unat a mod 4 * 16 + unat b div 16) mod 16 * 16 + unat b mod 16 * 4 div 4 = unat b"
    using sextets_second [OF unat_byte [of b] unat_byte [of 0], of "unat a"] by simp
  then have b2: "(of_nat ((unat a mod 4 * 16 + unat b div 16) mod 16 * 16
      + unat b mod 16 * 4 div 4) :: byte) = b"
    by (simp only: of_nat_unat_byte)
  have "a2b_base64 0 0 0 out (b64encode [a, b]) =
      a2b_base64 3 (unat b mod 16 * 4 mod 4) 0 ((out @ [a]) @ [b]) ''=''"
    by (simp only: b64encode.simps a2b_base64_data [OF bd(1)] a2b_base64_data [OF bd(2)]
        a2b_base64_data [OF bd(3)] b1 b2)
  then show ?case
    by (simp add: a2b_base64_pad del: a2b_base64.simps(2))
next
  case (4 a b c bs)
  have bd: "unat a div 4 < 64" "unat a mod 4 * 16 + unat b div 16 < 64"
    "unat b mod 16 * 4 + unat c div 64 < 64" "unat c mod 64 < 64"
    by (rule sextet_bounds [OF unat_byte unat_byte unat_byte])+
  have b1: "(of_nat (unat a div 4 * 4 + (unat a mod 4 * 16 + unat b div 16) div 16) :: byte) = a"
    by (simp only: sextets_first [OF unat_byte] of_nat_unat_byte)
  have b2: "(of_nat ((unat a mod 4 * 16 + unat b div 16) mod 16 * 16
      + (unat b mod 16 * 4 + unat c div 64) div 4) :: byte) = b"
    by (simp only: sextets_second [OF unat_byte unat_byte] of_nat_unat_byte)
  have b3: "(of_nat ((unat b mod 16 * 4 + unat c div 64) mod 4 * 64 + unat c mod 64) :: byte) = c"
    by (simp only: sextets_third [OF unat_byte] of_nat_unat_byte)
  have "a2b_base64 0 0 0 out (b64encode (a # b # c # bs)) =
      a2b_base64 0 0 0 (((out @ [a]) @ [b]) @ [c]) (b64encode bs)"
    by (simp only: b64encode.simps append.simps a2b_base64_data [OF bd(1)]
        a2b_base64_data [OF bd(2)] a2b_base64_data [OF bd(3)] a2b_base64_data [OF bd(4)]
        b1 b2 b3)
  also have "\<dots> = Inr ((((out @ [a]) @ [b]) @ [c]) @ bs)"
    by (rule "4.IH")
  finally show ?case by simp
qed

text \<open>
  Claim C5. For every byte sequence, what the orchestrator decodes from the sandbox's
  text-safe encoding of the sequence is the sequence itself, and the decoding does not fail.
\<close>

theorem encoding_round_trip: "decode_artifact (text_safe_encode bs) = Inr bs"
proof -
  note chars = b64encode_chars [of _ bs]
  have nl: "CHR 0x0A \<notin> set (b64encode bs)"
    using chars by blast
  have enc: "text_safe_encode bs = b64encode bs"
    using nl by (simp add: text_safe_encode_def tr_d_newline_wrap76)
  have "\<forall>c \<in> set (b64encode bs). \<not> isspace c"
    using chars by blast
  then have st: "strip (b64encode bs) = b64encode bs"
    by (rule strip_no_space)
  have "\<forall>c \<in> set (b64encode bs). isalnum c \<or> c = CHR ''+'' \<or> c = CHR ''/'' \<or> c = CHR ''=''"
    using chars by blast
  then have cl: "filter (\<lambda>c. isalnum c \<or> c = CHR ''+'' \<or> c = CHR ''/'' \<or> c = CHR ''='')
      (b64encode bs) = b64encode bs"
    by (simp add: filter_id_conv)
  have "\<forall>c \<in> set (b64encode bs). (of_char c :: nat) < 128"
    using chars by blast
  then have ascii: "filter (\<lambda>c. 128 \<le> (of_char c :: nat)) (b64encode bs) = []"
    by (auto simp: filter_empty_conv)
  have "decode_artifact (text_safe_encode bs) = b64decode (b64encode bs)"
    by (simp only: decode_artifact_def Let_def enc st cl)
  also have "\<dots> = a2b_base64 0 0 0 [] (b64encode bs)"
    by (simp add: b64decode_def ascii)
  also have "\<dots> = Inr bs"
    using a2b_base64_b64encode [of "[]" bs] by simp
  finally show ?thesis .
qed

subsection \<open>Escalating feedback\<close>

text \<open>
  Claim C6. Let the question be stored, let the model's judgement be read as \<open>validation\<close>
  and hold a value \<open>correct\<close>. The attempt count becomes the stored count plus one. For a
  wrong answer: at count 1 the feedback is the generic retry message, whatever the model
  said; at count 2 it is the fixed lead-in followed by the generated hint; at count 3 or
  more it is the fixed lead-in followed by the model's feedback. For a correct answer it is
  the model's feedback itself, at any count. \<open>offer_video\<close> is true exactly when the
  answer is wrong and the count has reached 3.
\<close>

theorem validate_user_answer_feedback:
  assumes row: "select_question question_id w = (Inr question_data, w)"
    and judged: "validate_answer env (q_question question_data) answer w = (Inr validation, w1)"
    and correct: "getitem validation ''correct'' = Inr correct"
  shows
    "(truthy correct \<and> getitem validation ''feedback'' = Inr model_feedback \<longrightarrow>
        validate_user_answer env session_id question_id answer w =
          (Inr \<lparr>ans_correct = correct, ans_attempts = q_attempts question_data + 1,
                ans_feedback = model_feedback, ans_offer_video = False,
                ans_question = q_question question_data, ans_topic = q_topic question_data\<rparr>,
           snd (update_attempts question_id (q_attempts question_data + 1) w1)))
   \<and> (\<not> truthy correct \<and> q_attempts question_data + 1 = 1 \<longrightarrow>
        validate_user_answer env session_id question_id answer w =
          (Inr \<lparr>ans_correct = correct, ans_attempts = 1,
                ans_feedback = JStr ''Incorrect. Please try again.'', ans_offer_video = False,
                ans_question = q_question question_data, ans_topic = q_topic question_data\<rparr>,
           snd (update_attempts question_id 1 w1)))
   \<and> (\<not> truthy correct \<and> q_attempts question_data + 1 = 2
        \<and> generate_hint env (q_question question_data) answer
             (snd (update_attempts question_id 2 w1)) = (Inr hint, w2) \<longrightarrow>
        validate_user_answer env session_id question_id answer w =
          (Inr \<lparr>ans_correct = correct, ans_attempts = 2,
                ans_feedback = JStr (''Not quite right. Here's a hint: '' @ py_str env hint),
                ans_offer_video = False,
                ans_question = q_question question_data, ans_topic = q_topic question_data\<rparr>,
           w2))
   \<and> (\<not> truthy correct \<and> 3 \<le> q_attempts question_data + 1
        \<and> getitem validation ''feedback'' = Inr model_feedback \<longrightarrow>
        validate_user_answer env session_id question_id answer w =
          (Inr \<lparr>ans_correct = correct, ans_attempts = q_attempts question_data + 1,
                ans_feedback = JStr (''That's not correct. '' @ py_str env model_feedback),
                ans_offer_video = True,
                ans_question = q_question question_data, ans_topic = q_topic question_data\<rparr>,
           snd (update_attempts question_id (q_attempts question_data + 1) w1)))
   \<and> (\<forall>r w'. validate_user_answer env session_id question_id answer w = (Inr r, w') \<longrightarrow>
          ans_attempts r = q_attempts question_data + 1
          \<and> ans_offer_video r = (\<not> truthy correct \<and> 3 \<le> ans_attempts r))"
  using row judged correct
  by (auto simp: validate_user_answer_def io_defs Let_def update_attempts_def
      split: sum.splits prod.splits)

text \<open>
  The policy on a wrong-answer sequence (first, second and third attempt) and on a correct
  answer at the third attempt.
\<close>

lemma asked_row:
  "select_question ''q1'' (asked_world n) = (Inr (asked_question n), asked_world n)"
  by (simp add: select_question_def single_def asked_world_def asked_question_def io_return_def)

lemma asked_wrong:
  "fst (validate_answer (tutor_env wrong_verdict hint_reply) (q_question (asked_question n)) ''5''
          (asked_world n)) =
     Inr (JObj [(''correct'', JBool False), (''feedback'', JStr ''Check the remainder.'')])"
  by (simp add: validate_answer_def client_messages_create_def io_defs Let_def tutor_env_def
      quiet_env_def wrong_verdict_parsed)

lemma asked_right:
  "fst (validate_answer (tutor_env right_verdict hint_reply) (q_question (asked_question n)) ''4''
          (asked_world n)) =
     Inr (JObj [(''correct'', JBool True), (''feedback'', JStr ''Well done.'')])"
  by (simp add: validate_answer_def client_messages_create_def io_defs Let_def tutor_env_def
      quiet_env_def right_verdict_parsed)

lemma asked_hint:
  "fst (generate_hint (tutor_env wrong_verdict hint_reply) (q_question (asked_question n)) ''5'' w)
     = Inr (JStr ''Divide 12 by 3 first.'')"
  by (simp add: generate_hint_def client_messages_create_def io_defs Let_def tutor_env_def
      quiet_env_def hint_reply_parsed)

theorem validate_user_answer_feedback_witness:
  "fst (validate_user_answer (tutor_env wrong_verdict hint_reply) ''s1'' ''q1'' ''5'' (asked_world 0)) =
     Inr \<lparr>ans_correct = JBool False, ans_attempts = 1,
           ans_feedback = JStr ''Incorrect. Please try again.'', ans_offer_video = False,
           ans_question = JStr ''12 / 3 = ?'', ans_topic = JStr ''Long Division''\<rparr>
   \<and> fst (validate_user_answer (tutor_env wrong_verdict hint_reply) ''s1'' ''q1'' ''5'' (asked_world 1)) =
     Inr \<lparr>ans_correct = JBool False, ans_attempts = 2,
           ans_feedback = JStr ''Not quite right. Here's a hint: Divide 12 by 3 first.'',
           ans_offer_video = False,
           ans_question = JStr ''12 / 3 = ?'', ans_topic = JStr ''Long Division''\<rparr>
   \<and> fst (validate_user_answer (tutor_env wrong_verdict hint_reply) ''s1'' ''q1'' ''5'' (asked_world 2)) =
     Inr \<lparr>ans_correct = JBool False, ans_attempts = 3,
           ans_feedback = JStr ''That's not correct. Check the remainder.'',
           ans_offer_video = True,
           ans_question = JStr ''12 / 3 = ?'', ans_topic = JStr ''Long Division''\<rparr>
   \<and> fst (validate_user_answer (tutor_env right_verdict hint_reply) ''s1'' ''q1'' ''4'' (asked_world 2)) =
     Inr \<lparr>ans_correct = JBool True, ans_attempts = 3,
           ans_feedback = JStr ''Well done.'', ans_offer_video = False,
           ans_question = JStr ''12 / 3 = ?'', ans_topic = JStr ''Long Division''\<rparr>"
proof -
  let ?wrong = "tutor_env wrong_verdict hint_reply"
  let ?right = "tutor_env right_verdict hint_reply"
  let ?no = "JObj [(''correct'', JBool False), (''feedback'', JStr ''Check the remainder.'')]"
  let ?yes = "JObj [(''correct'', JBool True), (''feedback'', JStr ''Well done.'')]"
  have judged_wrong: "validate_answer ?wrong (q_question (asked_question n)) ''5'' (asked_world n)
      = (Inr ?no, snd (validate_answer ?wrong (q_question (asked_question n)) ''5'' (asked_world n)))"
    for n
    using asked_wrong [of n] by (simp add: prod_eq_iff)
  have judged_right: "validate_answer ?right (q_question (asked_question n)) ''4'' (asked_world n)
      = (Inr ?yes, snd (validate_answer ?right (q_question (asked_question n)) ''4'' (asked_world n)))"
    for n
    using asked_right [of n] by (simp add: prod_eq_iff)
  have no: "getitem ?no ''correct'' = Inr (JBool False)" by simp
  have yes: "getitem ?yes ''correct'' = Inr (JBool True)" by simp
  have hinted: "generate_hint ?wrong (q_question (asked_question 1)) ''5'' w
      = (Inr (JStr ''Divide 12 by 3 first.''),
         snd (generate_hint ?wrong (q_question (asked_question 1)) ''5'' w))" for w
    using asked_hint [of 1 w] by (simp add: prod_eq_iff)
  note first = validate_user_answer_feedback [where session_id = "''s1''", OF asked_row [of 0] judged_wrong [of 0] no,
      THEN conjunct2, THEN conjunct1]
  note second = validate_user_answer_feedback [where session_id = "''s1''"
      and hint = "JStr ''Divide 12 by 3 first.''"
      and ?w2.0 = "snd (generate_hint ?wrong (q_question (asked_question 1)) ''5''
            (snd (update_attempts ''q1'' 2
               (snd (validate_answer ?wrong (q_question (asked_question 1)) ''5''
                  (asked_world 1))))))", OF asked_row [of 1] judged_wrong [of 1] no,
      THEN conjunct2, THEN conjunct2, THEN conjunct1]
  note third = validate_user_answer_feedback [where session_id = "''s1''"
      and model_feedback = "JStr ''Check the remainder.''", OF asked_row [of 2] judged_wrong [of 2] no,
      THEN conjunct2, THEN conjunct2, THEN conjunct2, THEN conjunct1]
  note right = validate_user_answer_feedback [where session_id = "''s1''"
      and model_feedback = "JStr ''Well done.''", OF asked_row [of 2] judged_right [of 2] yes,
      THEN conjunct1]
  have a1: "fst (validate_user_answer ?wrong ''s1'' ''q1'' ''5'' (asked_world 0)) =
     Inr \<lparr>ans_correct = JBool False, ans_attempts = 1,
           ans_feedback = JStr ''Incorrect. Please try again.'', ans_offer_video = False,
           ans_question = JStr ''12 / 3 = ?'', ans_topic = JStr ''Long Division''\<rparr>"
    using first by (simp add: asked_question_def)
  have a2: "fst (validate_user_answer ?wrong ''s1'' ''q1'' ''5'' (asked_world 1)) =
     Inr \<lparr>ans_correct = JBool False, ans_attempts = 2,
           ans_feedback = JStr ''Not quite right. Here's a hint: Divide 12 by 3 first.'',
           ans_offer_video = False,
           ans_question = JStr ''12 / 3 = ?'', ans_topic = JStr ''Long Division''\<rparr>"
    using second hinted
    by (simp add: asked_question_def py_str_def)
  have a3: "fst (validate_user_answer ?wrong ''s1'' ''q1'' ''5'' (asked_world 2)) =
     Inr \<lparr>ans_correct = JBool False, ans_attempts = 3,
           ans_feedback = JStr ''That's not correct. Check the remainder.'',
           ans_offer_video = True,
           ans_question = JStr ''12 / 3 = ?'', ans_topic = JStr ''Long Division''\<rparr>"
    using third
    by (simp add: asked_question_def py_str_def)
  have a4: "fst (validate_user_answer ?right ''s1'' ''q1'' ''4'' (asked_world 2)) =
     Inr \<lparr>ans_correct = JBool True, ans_attempts = 3,
           ans_feedback = JStr ''Well done.'', ans_offer_video = False,
           ans_question = JStr ''12 / 3 = ?'', ans_topic = JStr ''Long Division''\<rparr>"
    using right
    by (simp add: asked_question_def)
  from a1 a2 a3 a4 show ?thesis by blast
qed

subsection \<open>Difficulty derivation\<close>

text \<open>
  Claim C7. With no explicit difficulty the level is 1 for 0 to 2 questions, 2 for 3 to 5,
  one more for every further 3 questions until the cap: it is \<open>1 + count div 3\<close> below
  27 questions and 10 from there on, so never above 10. An explicit difficulty is clamped
  into 1..10 and never rejected: a value in range is kept, 0 gives 1 and 15 gives 10.
\<close>

theorem difficulty_derivation:
  "derive_difficulty None 0 = 1 \<and> derive_difficulty None 1 = 1 \<and> derive_difficulty None 2 = 1
   \<and> derive_difficulty None 3 = 2 \<and> derive_difficulty None 4 = 2 \<and> derive_difficulty None 5 = 2
   \<and> (\<forall>n. derive_difficulty None n = (if n < 27 then 1 + int (n div 3) else 10))
   \<and> (\<forall>n. derive_difficulty None (n + 3) =
          (if n < 27 then derive_difficulty None n + 1 else 10))
   \<and> (\<forall>n. 1 \<le> derive_difficulty None n \<and> derive_difficulty None n \<le> 10)
   \<and> (\<forall>d n. 1 \<le> derive_difficulty (Some d) n \<and> derive_difficulty (Some d) n \<le> 10)
   \<and> (\<forall>d n. derive_difficulty (Some d) n = (if d < 1 then 1 else if 10 < d then 10 else d))
   \<and> derive_difficulty (Some 0) n = 1 \<and> derive_difficulty (Some 15) n = 10"
  by (auto simp: derive_difficulty_def zdiv_int)

subsection \<open>Retention sweep\<close>

lemma old_video_names_filter:
  assumes "\<forall>v \<in> set videos. fromisoformat env (replace_Z (v_created_at v)) = Inr (Aware (created v))"
  shows "old_video_names env cutoff_time videos
           = Inr (map v_name (filter (\<lambda>v. created v < cutoff_time) videos))"
  using assms by (induction videos) (simp_all add: is_older_def)

lemma filter_by_distinct_names:
  assumes "distinct (map v_name videos)"
  shows "filter (\<lambda>v. v_name v \<notin> set (map v_name (filter P videos))) videos
           = filter (\<lambda>v. \<not> P v) videos"
proof (rule filter_cong [OF refl])
  fix v assume v: "v \<in> set videos"
  from assms have inj: "inj_on v_name (set videos)"
    by (simp add: distinct_map)
  have "v_name v \<in> set (map v_name (filter P videos)) \<longleftrightarrow> P v"
  proof
    assume "v_name v \<in> set (map v_name (filter P videos))"
    then obtain u where u: "u \<in> set videos" "P u" "v_name u = v_name v" by auto
    with inj v have "u = v" by (simp add: inj_on_eq_iff)
    with u show "P v" by simp
  next
    assume "P v"
    with v show "v_name v \<in> set (map v_name (filter P videos))" by auto
  qed
  then show "(v_name v \<notin> set (map v_name (filter P videos))) = (\<not> P v)" by simp
qed

text \<open>
  Claim C8. Let every stored video carry a creation stamp that reads as a time with zone,
  and let the names in the bucket be distinct. Then the sweep removes exactly the videos
  created strictly before now minus one day and keeps all others; it removes them with one
  \<open>remove\<close> call that names them all (and makes no such call when there is none); and it
  returns their number and their names.
\<close>

theorem cleanup_old_videos_sweep:
  assumes stamps: "\<forall>v \<in> set (bucket_videos w).
             fromisoformat env (replace_Z (v_created_at v)) = Inr (Aware (created v))"
    and names: "distinct (map v_name (bucket_videos w))"
  shows "cleanup_old_videos env w =
           (let cutoff_time = now_utc env (trace w) - one_day;
                old = filter (\<lambda>v. created v < cutoff_time) (bucket_videos w)
            in (Inr \<lparr>cl_deleted = length old, cl_files = map v_name old\<rparr>,
                w\<lparr>bucket_videos := filter (\<lambda>v. \<not> created v < cutoff_time) (bucket_videos w),
                  trace := trace w @ [UtcNow, StorageList]
                           @ (if old = [] then [] else [StorageRemove (map v_name old)])\<rparr>))"
proof -
  define cutoff_time where "cutoff_time = now_utc env (trace w) - one_day"
  define old where "old = filter (\<lambda>v. created v < cutoff_time) (bucket_videos w)"
  have sel: "old_video_names env cutoff_time (bucket_videos w) = Inr (map v_name old)"
    unfolding old_def by (rule old_video_names_filter [OF stamps])
  have kept: "filter (\<lambda>v. v_name v \<notin> set (map v_name old)) (bucket_videos w)
      = filter (\<lambda>v. \<not> created v < cutoff_time) (bucket_videos w)"
    unfolding old_def by (rule filter_by_distinct_names [OF names])
  have none: "filter (\<lambda>v. \<not> created v < cutoff_time) (bucket_videos w) = bucket_videos w"
    if "old = []"
    using that by (auto simp: old_def filter_empty_conv filter_id_conv)
  show ?thesis
  proof (cases "old = []")
    case True
    then show ?thesis
      using sel none
      by (simp add: cleanup_old_videos_def Let_def storage_list_def io_defs
          cutoff_time_def [symmetric] old_def [symmetric])
  next
    case False
    then show ?thesis
      using sel kept
      by (simp add: cleanup_old_videos_def Let_def storage_list_def storage_remove_def
          io_defs cutoff_time_def [symmetric] old_def [symmetric])
  qed
qed

theorem cleanup_old_videos_sweep_witness:
  "cleanup_old_videos sweep_env (empty_world\<lparr>bucket_videos := sweep_videos\<rparr>) =
     (Inr \<lparr>cl_deleted = 2, cl_files = [''a.mp4'', ''c.mp4'']\<rparr>,
      empty_world\<lparr>bucket_videos := [\<lparr>v_name = ''b.mp4'', v_created_at = ''2026-01-02T13:00:00.000Z''\<rparr>],
        trace := [UtcNow, StorageList, StorageRemove [''a.mp4'', ''c.mp4'']]\<rparr>)"
proof -
  have stamps: "\<forall>v \<in> set (bucket_videos (empty_world\<lparr>bucket_videos := sweep_videos\<rparr>)).
      fromisoformat sweep_env (replace_Z (v_created_at v)) = Inr (Aware (sweep_created v))"
    by (simp add: sweep_videos_def sweep_env_def sweep_fromisoformat_def sweep_created_def
        replace_Z_def)
  have names: "distinct (map v_name (bucket_videos (empty_world\<lparr>bucket_videos := sweep_videos\<rparr>)))"
    by (simp add: sweep_videos_def)
  note cleanup_old_videos_sweep [OF stamps names]
  also have "(let cutoff_time = now_utc sweep_env (trace (empty_world\<lparr>bucket_videos := sweep_videos\<rparr>)) - one_day;
                old = filter (\<lambda>v. sweep_created v < cutoff_time)
                        (bucket_videos (empty_world\<lparr>bucket_videos := sweep_videos\<rparr>))
            in (Inr \<lparr>cl_deleted = length old, cl_files = map v_name old\<rparr>,
                empty_world\<lparr>bucket_videos := sweep_videos\<rparr>
                 \<lparr>bucket_videos := filter (\<lambda>v. \<not> sweep_created v < cutoff_time)
                    (bucket_videos (empty_world\<lparr>bucket_videos := sweep_videos\<rparr>)),
                  trace := trace (empty_world\<lparr>bucket_videos := sweep_videos\<rparr>) @ [UtcNow, StorageList]
                           @ (if old = [] then [] else [StorageRemove (map v_name old)])\<rparr>))
      = (Inr \<lparr>cl_deleted = 2, cl_files = [''a.mp4'', ''c.mp4'']\<rparr>,
      empty_world\<lparr>bucket_videos := [\<lparr>v_name = ''b.mp4'', v_created_at = ''2026-01-02T13:00:00.000Z''\<rparr>],
        trace := [UtcNow, StorageList, StorageRemove [''a.mp4'', ''c.mp4'']]\<rparr>)"
    by (simp add: Let_def sweep_videos_def sweep_created_def sweep_env_def quiet_env_def
        empty_world_def one_day_def)
  finally show ?thesis .
qed

end
